theory Spec2Isabelle
  imports Main "HOL-Library.AList" "HOL-Library.Sublist" "HOL-Library.Code_Target_Nat"
begin

section \<open>Raw validation errors and their path segments\<close>

text \<open>
  One entry of the array that the validator's \<open>getLastErrors()\<close> returns, with the four
  fields the header comment of \<open>validate.js\<close> shows. \<open>params\<close> is \<open>None\<close> when the
  entry has no \<open>params\<close> (the test \<open>error.params\<close> of line 142 is then false); an array,
  also an empty one, is truthy and is \<open>Some\<close> of its elements.
\<close>

record raw_error =
  code :: string
  params :: "string list option"
  message :: string
  path :: string

text \<open>
  \<open>String.prototype.split\<close> with a separator of one character. The result is never
  empty: \<open>"".split("/")\<close> is \<open>[""]\<close> and \<open>"#/".split("/")\<close> is \<open>["#", ""]\<close>.
\<close>

fun split_str :: "char \<Rightarrow> string \<Rightarrow> string list" where
  "split_str c [] = [[]]"
| "split_str c (x # xs) =
     (if x = c then [] # split_str c xs
      else (case split_str c xs of [] \<Rightarrow> [[x]] | s # ss \<Rightarrow> (x # s) # ss))"

text \<open>
  \<open>removeEmptySegments\<close> (line 117), on the strings that \<open>split\<close> returns: these are
  never \<open>undefined\<close> or \<open>null\<close>, so only the length test is left.
\<close>

definition removeEmptySegments :: "string \<Rightarrow> bool" where
  "removeEmptySegments el = (length el > 0)"

text \<open>
  The expression of line 141,
  \<open>error.path.split("/").filter(gpii.schema.validator.removeEmptySegments).slice(1)\<close>:
  \<open>slice(1)\<close> drops the first segment that is left, whatever it is.
\<close>

definition splitPath :: "string \<Rightarrow> string list" where
  "splitPath p = drop 1 (filter removeEmptySegments (split_str CHR ''/'' p))"

text \<open>\<open>extractPathSegments\<close> (lines 140 to 144): \<open>concat\<close> appends every element of \<open>params\<close>.\<close>

definition extractPathSegments :: "raw_error \<Rightarrow> string list" where
  "extractPathSegments error =
     (let segments = splitPath (path error) in
      if code error = ''OBJECT_MISSING_REQUIRED_PROPERTY'' then
        (case params error of Some ps \<Rightarrow> segments @ ps | None \<Rightarrow> segments)
      else segments)"

section \<open>The error map\<close>

text \<open>
  The values reachable from \<open>sanitizedErrors.fieldErrors\<close>. Each object or array in it
  is created by a literal \<open>{}\<close> or \<open>[]\<close> (lines 99 and 169) and is stored in exactly one
  place, so the map is a tree without sharing and a reference into it is determined by
  the path that leads to it.

  \<^item> \<open>Obj ps\<close> is a plain object with own properties \<open>ps\<close>.
  \<^item> \<open>Arr es ps\<close> is an array with elements \<open>es\<close> and named properties \<open>ps\<close>: a
    JavaScript array is an object too, and line 169 can give it named properties. An
    element is a message that was pushed (\<open>Msg\<close>), an object or array that line 169
    stored under an index (\<open>Sub\<close>), or a hole left below such an index (\<open>Hole\<close>).
  The code never enumerates properties, so the order of \<open>ps\<close> carries no meaning for it;
  the lists are kept in the order in which the properties were added.
\<close>

datatype node =
    Obj "(string \<times> node) list"
  | Arr "elem list" "(string \<times> node) list"
and elem = Msg string | Sub node | Hole

record errorMap =
  documentErrors :: "string list"
  fieldErrors :: node

subsection \<open>Values that a property read can give\<close>

text \<open>
  A read \<open>resolvedTarget[segment]\<close> can leave the error map in two ways. It can give a
  primitive: an element of an array is a message string, the \<open>length\<close> of an array or
  string is a number, an index into a string gives a string of one character. And it
  can give an object of the runtime, found on the prototype chain: a prototype (under
  \<open>__proto__\<close>) or a built-in function (under \<open>constructor\<close>, \<open>toString\<close>, \<open>push\<close> and
  so on). A string is a list of code units, one \<open>char\<close> each, which is exact for ASCII.
\<close>

datatype prim = PString string | PNumber nat

datatype runtime =
    Object_prototype
  | Array_prototype
  | String_prototype
  | Number_prototype
  | Builtin_function string

datatype val = VUndefined | VNode node | VPrim prim | VRuntime runtime

text \<open>The test of line 168: \<open>undefined\<close>, the empty string and zero are falsy.\<close>

fun truthy :: "val \<Rightarrow> bool" where
  "truthy VUndefined = False"
| "truthy (VNode n) = True"
| "truthy (VPrim (PString s)) = (s \<noteq> [])"
| "truthy (VPrim (PNumber n)) = (n \<noteq> 0)"
| "truthy (VRuntime r) = True"

text \<open>
  The names of the members that a plain object, an array, a string and a number find on
  their prototype chains in an engine of ECMAScript 2024, before any script has added to
  the prototypes. Every value inherits the members of \<open>Object.prototype\<close>; the other
  three lists hold what \<open>Array.prototype\<close>, \<open>String.prototype\<close> and \<open>Number.prototype\<close>
  add to them.
\<close>

definition Object_prototype_keys :: "string list" where
  "Object_prototype_keys =
     [''constructor'', ''__defineGetter__'', ''__defineSetter__'', ''hasOwnProperty'',
      ''__lookupGetter__'', ''__lookupSetter__'', ''isPrototypeOf'',
      ''propertyIsEnumerable'', ''toString'', ''valueOf'', ''__proto__'',
      ''toLocaleString'']"

definition Array_prototype_keys :: "string list" where
  "Array_prototype_keys =
     [''concat'', ''copyWithin'', ''fill'', ''find'', ''findIndex'', ''lastIndexOf'',
      ''pop'', ''push'', ''reverse'', ''shift'', ''unshift'', ''slice'', ''sort'',
      ''splice'', ''includes'', ''indexOf'', ''join'', ''keys'', ''entries'', ''values'',
      ''forEach'', ''filter'', ''flat'', ''flatMap'', ''map'', ''every'', ''some'',
      ''reduce'', ''reduceRight'', ''at'', ''findLast'', ''findLastIndex'',
      ''toReversed'', ''toSorted'', ''toSpliced'', ''with'']"

definition String_prototype_keys :: "string list" where
  "String_prototype_keys =
     [''anchor'', ''at'', ''big'', ''blink'', ''bold'', ''charAt'', ''charCodeAt'',
      ''codePointAt'', ''concat'', ''endsWith'', ''fontcolor'', ''fontsize'', ''fixed'',
      ''includes'', ''indexOf'', ''isWellFormed'', ''italics'', ''lastIndexOf'', ''link'',
      ''localeCompare'', ''match'', ''matchAll'', ''normalize'', ''padEnd'', ''padStart'',
      ''repeat'', ''replace'', ''replaceAll'', ''search'', ''slice'', ''small'', ''split'',
      ''strike'', ''sub'', ''substr'', ''substring'', ''sup'', ''startsWith'',
      ''toWellFormed'', ''trim'', ''trimStart'', ''trimLeft'', ''trimEnd'', ''trimRight'',
      ''toLocaleLowerCase'', ''toLocaleUpperCase'', ''toLowerCase'', ''toUpperCase'']"

definition Number_prototype_keys :: "string list" where
  "Number_prototype_keys = [''toExponential'', ''toFixed'', ''toPrecision'']"

text \<open>
  A read that finds no own property goes to the prototype chain: \<open>__proto__\<close> gives the
  prototype itself, an inherited name gives the built-in function of that name, any
  other name gives \<open>undefined\<close>.
\<close>

definition inherited :: "runtime \<Rightarrow> string list \<Rightarrow> string \<Rightarrow> val" where
  "inherited proto names s =
     (if s = ''__proto__'' then VRuntime proto
      else if s \<in> set names \<or> s \<in> set Object_prototype_keys
           then VRuntime (Builtin_function s)
      else VUndefined)"

text \<open>
  An array index is the decimal numeral of a number below \<open>2^32 - 1\<close>, without leading
  zeros. Any other name, also one made of digits, is an ordinary property name.
\<close>

definition digit_value :: "char \<Rightarrow> nat" where
  "digit_value c = length (takeWhile (\<lambda>d. d \<noteq> c) ''0123456789'')"

definition decimal_value :: "string \<Rightarrow> nat" where
  "decimal_value s = foldl (\<lambda>n c. 10 * n + digit_value c) 0 s"

definition array_index :: "string \<Rightarrow> nat option" where
  "array_index s =
     (if s = ''0'' then Some 0
      else if s = [] then None
      else if list_all (\<lambda>c. c \<in> set ''0123456789'') s \<and> hd s \<in> set ''123456789'' \<and>
              decimal_value s < 4294967295
           then Some (decimal_value s)
      else None)"

text \<open>
  The read \<open>o[s]\<close> on an object or array \<open>o\<close> of the error map. An array has its
  \<open>length\<close> and its elements as own properties before its named ones; the read of a hole
  or of an index beyond the end finds nothing on the prototype chain either.
\<close>

fun getProp :: "node \<Rightarrow> string \<Rightarrow> val" where
  "getProp (Obj ps) s =
     (case map_of ps s of
        Some n \<Rightarrow> VNode n
      | None \<Rightarrow> inherited Object_prototype [] s)"
| "getProp (Arr es ps) s =
     (if s = ''length'' then VPrim (PNumber (length es))
      else (case array_index s of
              Some i \<Rightarrow>
                (if i < length es
                 then (case es ! i of
                         Msg m \<Rightarrow> VPrim (PString m)
                       | Sub n \<Rightarrow> VNode n
                       | Hole \<Rightarrow> VUndefined)
                 else VUndefined)
            | None \<Rightarrow>
                (case map_of ps s of
                   Some n \<Rightarrow> VNode n
                 | None \<Rightarrow> inherited Array_prototype Array_prototype_keys s)))"

text \<open>The read \<open>p[s]\<close> on a primitive \<open>p\<close>.\<close>

fun getPrim :: "prim \<Rightarrow> string \<Rightarrow> val" where
  "getPrim (PString str) s =
     (if s = ''length'' then VPrim (PNumber (length str))
      else (case array_index s of
              Some i \<Rightarrow> if i < length str then VPrim (PString [str ! i]) else VUndefined
            | None \<Rightarrow> inherited String_prototype String_prototype_keys s))"
| "getPrim (PNumber n) s = inherited Number_prototype Number_prototype_keys s"

text \<open>
  Storing the object or array \<open>v\<close> under a key other than an array's \<open>length\<close>: a new
  named property goes to the end, an existing one keeps its place; an index at or beyond
  the end of an array lengthens the array and leaves holes below it.
\<close>

fun setProp :: "node \<Rightarrow> string \<Rightarrow> node \<Rightarrow> node" where
  "setProp (Obj ps) s v = Obj (AList.update s v ps)"
| "setProp (Arr es ps) s v =
     (case array_index s of
        Some i \<Rightarrow> Arr ((es @ replicate (Suc i - length es) Hole)[i := Sub v]) ps
      | None \<Rightarrow> Arr es (AList.update s v ps))"

text \<open>
  How a call can end without a value:
  \<^item> \<open>Fail_message\<close>, \<open>Fail_errors\<close>: \<open>fluid.fail\<close> was called with a string, or with the
    validator's last errors; \<open>fluid.fail\<close> raises;
  \<^item> \<open>TypeError\<close>: a call of \<open>target.push\<close> where \<open>target\<close> has no function \<open>push\<close>
    (line 200), or an assignment to a property of a primitive (line 169; the file is in
    strict mode);
  \<^item> \<open>RangeError\<close>: an assignment that would give an array an invalid length;
  \<^item> \<open>Unmodelled\<close>: not an exception of the code. The code went on to read or to change a
    property of an object of the runtime (a prototype, a built-in function), or was
    about to hand such an object to the validator; the model follows it no further.
\<close>

datatype failure =
    Fail_message string
  | Fail_errors "raw_error list"
  | TypeError
  | RangeError
  | Unmodelled

text \<open>
  Line 169, \<open>resolvedTarget[segment] = a === path.length - 1 ? [] : {}\<close>, reached when
  the read of line 168 was falsy; \<open>final\<close> says whether the segment is the last one. On
  an array the falsy read can be that of \<open>length\<close>, which is then \<open>0\<close>: the assignment
  of \<open>[]\<close> sets the length to \<open>Number([])\<close>, which is \<open>0\<close>, and the assignment of \<open>{}\<close>
  raises a \<open>RangeError\<close>, since \<open>Number({})\<close> is no length.
\<close>

definition createProp :: "node \<Rightarrow> string \<Rightarrow> bool \<Rightarrow> failure + node" where
  "createProp target segment final =
     (case target of
        Obj ps \<Rightarrow> Inr (setProp target segment (if final then Arr [] [] else Obj []))
      | Arr es ps \<Rightarrow>
          if segment = ''length'' then (if final then Inr (Arr [] ps) else Inl RangeError)
          else Inr (setProp target segment (if final then Arr [] [] else Obj [])))"

text \<open>
  The rest of the loop of lines 166 to 173 once \<open>resolvedTarget\<close> is a primitive or an
  object of the runtime. The read of a property of a primitive gives a primitive, an
  object of the runtime or \<open>undefined\<close>. A primitive has no property that line 169 could
  set: where the read of line 168 is falsy, the assignment raises a \<open>TypeError\<close>.
\<close>

fun walkRuntime :: "runtime \<Rightarrow> string list \<Rightarrow> failure + val" where
  "walkRuntime r [] = Inr (VRuntime r)"
| "walkRuntime r (segment # rest) = Inl Unmodelled"

fun walkPrim :: "prim \<Rightarrow> string list \<Rightarrow> failure + val" where
  "walkPrim p [] = Inr (VPrim p)"
| "walkPrim p (segment # rest) =
     (case getPrim p segment of
        VPrim q \<Rightarrow> if truthy (VPrim q) then walkPrim q rest else Inl TypeError
      | VRuntime r \<Rightarrow> walkRuntime r rest
      | _ \<Rightarrow> Inl TypeError)"

text \<open>
  \<open>resolveOrCreateTargetFromPath\<close> (lines 164 to 175), called on an object or array of
  the error map. The loop over \<open>a\<close> is the recursion over the path; \<open>a === path.length - 1\<close>
  holds exactly when no segment is left after the current one. The source mutates
  \<open>target\<close> in place and returns what \<open>resolvedTarget\<close> ends on; the model returns the
  updated tree together with that value. Where the value is an object or array of the
  error map, it sits at \<open>path\<close> in the updated tree.
\<close>

fun resolveOrCreateTargetFromPath :: "node \<Rightarrow> string list \<Rightarrow> failure + node \<times> val" where
  "resolveOrCreateTargetFromPath target [] = Inr (target, VNode target)"
| "resolveOrCreateTargetFromPath target (segment # rest) =
     (case (if truthy (getProp target segment) then Inr target
            else createProp target segment (rest = [])) of
        Inl e \<Rightarrow> Inl e
      | Inr target1 \<Rightarrow>
          (case getProp target1 segment of
             VNode child \<Rightarrow>
               (case resolveOrCreateTargetFromPath child rest of
                  Inl e \<Rightarrow> Inl e
                | Inr (child1, resolved) \<Rightarrow> Inr (setProp target1 segment child1, resolved))
           | VPrim p \<Rightarrow> map_sum id (Pair target1) (walkPrim p rest)
           | VRuntime r \<Rightarrow> map_sum id (Pair target1) (walkRuntime r rest)
           | VUndefined \<Rightarrow> if rest = [] then Inr (target1, VUndefined) else Inl TypeError))"

text \<open>
  The call \<open>target.push(errorString)\<close> of line 200, by what \<open>target\<close> is: \<open>None\<close> when
  the call appends to an array of the error map, otherwise how it ends. Only arrays have
  a function \<open>push\<close>, and an own property of that name would hide it. An array of
  \<open>2^32 - 1\<close> elements cannot grow. \<open>Array.prototype\<close> is an array itself; a push
  onto it changes the runtime.
\<close>

fun pushFails :: "val \<Rightarrow> failure option" where
  "pushFails (VNode (Arr es ps)) =
     (if map_of ps ''push'' = None
      then (if length es < 4294967295 then None else Some RangeError)
      else Some TypeError)"
| "pushFails (VRuntime Array_prototype) = Some Unmodelled"
| "pushFails v = Some TypeError"

text \<open>\<open>Array.prototype.push\<close> of one message, on an array of the error map.\<close>

fun push :: "string \<Rightarrow> node \<Rightarrow> node" where
  "push m (Arr es ps) = Arr (es @ [Msg m]) ps"
| "push m (Obj ps) = Obj ps"

text \<open>A mutation through a reference: \<open>f\<close> applied to the node at a path, in place.\<close>

fun modifyAt :: "(node \<Rightarrow> node) \<Rightarrow> string list \<Rightarrow> node \<Rightarrow> node" where
  "modifyAt f [] t = f t"
| "modifyAt f (s # rest) t =
     (case getProp t s of VNode c \<Rightarrow> setProp t s (modifyAt f rest c) | _ \<Rightarrow> t)"

text \<open>
  \<open>saveToPath\<close> (lines 190 to 201); its first argument is always an array, so
  \<open>path && path.length > 0\<close> is \<open>path.length > 0\<close>. \<open>errorMap.documentErrors\<close> is the array
  of line 99, to which only messages are ever pushed.
\<close>

definition saveToPath :: "string list \<Rightarrow> string \<Rightarrow> errorMap \<Rightarrow> failure + errorMap" where
  "saveToPath segs errorString errorMap =
     (if segs \<noteq> [] then
        (case resolveOrCreateTargetFromPath (fieldErrors errorMap) segs of
           Inl e \<Rightarrow> Inl e
         | Inr (tree, target) \<Rightarrow>
             (case pushFails target of
                None \<Rightarrow> Inr (errorMap\<lparr>fieldErrors := modifyAt (push errorString) segs tree\<rparr>)
              | Some e \<Rightarrow> Inl e))
      else Inr (errorMap\<lparr>documentErrors := documentErrors errorMap @ [errorString]\<rparr>))"

text \<open>\<open>sanitizeError\<close> (lines 108 to 113).\<close>

definition sanitizeError :: "raw_error \<Rightarrow> errorMap \<Rightarrow> failure + errorMap" where
  "sanitizeError error errorMap =
     saveToPath (extractPathSegments error) (message error) errorMap"

text \<open>
  \<open>fluid.each(errors, ...)\<close> of line 101 visits the array from its first element to its
  last; an exception raised for one element ends the loop.
\<close>

fun each_sanitizeError :: "raw_error list \<Rightarrow> errorMap \<Rightarrow> failure + errorMap" where
  "each_sanitizeError [] sanitizedErrors = Inr sanitizedErrors"
| "each_sanitizeError (error # errors) sanitizedErrors =
     (case sanitizeError error sanitizedErrors of
        Inl e \<Rightarrow> Inl e
      | Inr sanitizedErrors' \<Rightarrow> each_sanitizeError errors sanitizedErrors')"

text \<open>\<open>sanitizeValidationErrors\<close> (lines 98 to 106).\<close>

definition sanitizeValidationErrors :: "raw_error list \<Rightarrow> failure + errorMap" where
  "sanitizeValidationErrors errors =
     each_sanitizeError errors \<lparr>documentErrors = [], fieldErrors = Obj []\<rparr>"

section \<open>The component and its validator\<close>

text \<open>
  \<open>that.schemaContents\<close>: a plain object from schema key to schema document, as the
  list of its own properties in the order \<open>Object.keys\<close> gives them. The schema
  documents are objects, hence truthy; their type is a parameter, since \<open>validate\<close> hands
  them to the validator without looking into them.
\<close>

record 's component =
  schemaContents :: "(string \<times> 's) list"

text \<open>
  The validator is an external library, reached through \<open>that.getValidator()\<close>, which is
  \<open>fluid.notImplemented\<close> in this grade. Its four operations are parameters of the model.
  A validator instance has a state \<open>'v\<close>, which the operations read and return, and a
  validator may annotate the schema objects it is given, so \<open>validateSchema\<close> and
  \<open>validate\<close> return the schemas as they leave them. \<open>getLastErrors\<close> reads the errors
  of the latest operation from the state.
\<close>

record ('v, 's, 'c) validator_api =
  getValidator :: "'v"
  validateSchema :: "'v \<Rightarrow> 's list \<Rightarrow> bool \<times> 'v \<times> 's list"
  validator_validate :: "'v \<Rightarrow> 'c \<Rightarrow> 's \<Rightarrow> bool \<times> 'v \<times> 's"
  getLastErrors :: "'v \<Rightarrow> raw_error list"

text \<open>The read \<open>that.schemaContents[key]\<close>, which follows the prototype chain as well.\<close>

datatype 's schema_lookup = No_schema | Own_schema 's | Builtin_schema

definition getSchema :: "'s component \<Rightarrow> string \<Rightarrow> 's schema_lookup" where
  "getSchema that key =
     (case map_of (schemaContents that) key of
        Some s \<Rightarrow> Own_schema s
      | None \<Rightarrow> if key \<in> set Object_prototype_keys then Builtin_schema else No_schema)"

text \<open>The message of line 52; \<open>CHR 0x27\<close> is its apostrophe.\<close>

definition no_schema_content :: string where
  "no_schema_content =
     ''You tried to validate a component for which we have no schema content.  Can'' @
     [CHR 0x27] @ ''t continue.''"

text \<open>What \<open>validate\<close> returns: \<open>undefined\<close>, or the sanitized errors.\<close>

datatype validation_result = Undefined | Errors errorMap

text \<open>
  The schema objects after the validator has worked on them, under their old keys: the
  validator holds references to the values of \<open>that.schemaContents\<close>, it cannot add or
  remove a key.
\<close>

fun writeBack :: "(string \<times> 's) list \<Rightarrow> 's list \<Rightarrow> (string \<times> 's) list" where
  "writeBack [] ss = []"
| "writeBack (ks # kss) [] = ks # kss"
| "writeBack ((k, s) # kss) (s' # ss) = (k, s') # writeBack kss ss"

text \<open>
  \<open>gpii.schema.validator.validate\<close> (lines 50 to 70). Besides the outcome the model
  returns the component as the call leaves it and the validator instance the call
  used, \<open>None\<close> when it created none. \<open>Object.keys(that.schemaContents).map(...)\<close> is the
  list of all schema documents in key order. Where the key is an inherited member and
  not a schema, the validator would be handed a runtime function: \<open>Unmodelled\<close>.
\<close>

definition validate ::
  "('v, 's, 'c) validator_api \<Rightarrow> 's component \<Rightarrow> string \<Rightarrow> 'c \<Rightarrow>
   (failure + validation_result) \<times> 's component \<times> 'v option" where
  "validate api that key content =
     (case getSchema that key of
        No_schema \<Rightarrow> (Inl (Fail_message no_schema_content), that, None)
      | _ \<Rightarrow>
        (let validator = getValidator api;
             (schemasValid, validator1, schemas1) =
               validateSchema api validator (map snd (schemaContents that));
             that1 = that\<lparr>schemaContents := writeBack (schemaContents that) schemas1\<rparr>
         in if \<not> schemasValid
            then (Inl (Fail_errors (getLastErrors api validator1)), that1, Some validator1)
            else
              (case getSchema that1 key of
                 Own_schema schema \<Rightarrow>
                   (let (contentValid, validator2, schema2) =
                          validator_validate api validator1 content schema;
                        that2 = that1\<lparr>schemaContents :=
                                  AList.update key schema2 (schemaContents that1)\<rparr>
                    in if \<not> contentValid
                       then (map_sum id Errors
                               (sanitizeValidationErrors (getLastErrors api validator2)),
                             that2, Some validator2)
                       else (Inr Undefined, that2, Some validator2))
               | _ \<Rightarrow> (Inl Unmodelled, that1, Some validator1))))"

section \<open>The pointer resolver as the specification words it\<close>

text \<open>
  Section 4.1 of the specification describes \<open>segmentsFromPointer\<close> in words. The
  definition below follows those words, for comparison with \<open>splitPath\<close> and
  \<open>extractPathSegments\<close>, which are the code: split on \<open>/\<close>; drop the leading empty
  segment; drop the document marker \<open>#\<close>; replace \<open>~1\<close> by \<open>/\<close> and \<open>~0\<close> by \<open>~\<close> in
  each segment, failing on any other character after \<open>~\<close>; drop the empty segments.
\<close>

datatype pointer_error = MalformedPointerError

fun unescape :: "string \<Rightarrow> pointer_error + string" where
  "unescape [] = Inr []"
| "unescape (c # cs) =
     (if c = CHR ''~'' then
        (case cs of
           [] \<Rightarrow> Inl MalformedPointerError
         | d # r \<Rightarrow>
             if d = CHR ''0'' then map_sum id ((#) CHR ''~'') (unescape r)
             else if d = CHR ''1'' then map_sum id ((#) CHR ''/'') (unescape r)
             else Inl MalformedPointerError)
      else map_sum id ((#) c) (unescape cs))"

fun unescape_all :: "string list \<Rightarrow> pointer_error + string list" where
  "unescape_all [] = Inr []"
| "unescape_all (s # ss) =
     (case unescape s of
        Inl e \<Rightarrow> Inl e
      | Inr s' \<Rightarrow> map_sum id ((#) s') (unescape_all ss))"

definition segmentsFromPointer_spec :: "string \<Rightarrow> pointer_error + string list" where
  "segmentsFromPointer_spec pointer =
     (let segs = split_str CHR ''/'' pointer;
          segs1 = (case segs of [] \<Rightarrow> [] | s # r \<Rightarrow> if s = [] then r else segs);
          segs2 = (case segs1 of [] \<Rightarrow> [] | s # r \<Rightarrow> if s = ''#'' then r else segs1)
      in map_sum id (filter (\<lambda>s. s \<noteq> [])) (unescape_all segs2))"

section \<open>The error-overlay merge engine\<close>

text \<open>
  Modelled from the spec: a schema node of section 3, reduced to what the merge engine
  of section 4.3 reads. The engine is not among the source files; only one of its tests
  and two schema documents are. \<open>Schema errs kids\<close> is a node with its \<open>errors\<close> block
  \<open>errs\<close> (keyword to message, empty when the node has no block) and its sub-nodes
  \<open>kids\<close> by pointer segment. A sequence such as \<open>allOf\<close> is a node whose sub-nodes are
  keyed by their positions. Scalars have no sub-nodes and are left out.
\<close>

datatype schema = Schema "(string \<times> string) list" "(string \<times> schema) list"

text \<open>
  Modelled from the spec: the error message index of section 3, for one schema id, from
  (pointer path, keyword) to message.
\<close>

type_synonym message_index = "string list \<times> string \<Rightarrow> string option"

text \<open>
  Modelled from the spec: ``for every keyword the overlay's \<open>errors\<close> block defines,
  write/overwrite the index entry'' (section 4.3), at the node with pointer path \<open>p\<close>.
\<close>

fun writeErrors :: "string list \<Rightarrow> (string \<times> string) list \<Rightarrow> message_index \<Rightarrow> message_index" where
  "writeErrors p [] idx = idx"
| "writeErrors p ((k, m) # errs) idx = writeErrors p errs (idx((p, k) \<mapsto> m))"

text \<open>
  Modelled from the spec: the ``recursive tree walk \<dots> accumulating \<open>(schemaId,
  pointerPath)\<close> as it descends'' of section 4.3, over one schema. The specification's
  visited set only matters for cyclic graphs, which this datatype does not have.
\<close>

fun mergeWalk :: "string list \<Rightarrow> schema \<Rightarrow> message_index \<Rightarrow> message_index"
  and mergeWalkChildren :: "string list \<Rightarrow> (string \<times> schema) list \<Rightarrow> message_index \<Rightarrow> message_index"
where
  "mergeWalk p (Schema errs kids) idx = mergeWalkChildren p kids (writeErrors p errs idx)"
| "mergeWalkChildren p [] idx = idx"
| "mergeWalkChildren p ((seg, c) # kids) idx =
     mergeWalkChildren p kids (mergeWalk (p @ [seg]) c idx)"

text \<open>
  Modelled from the spec: \<open>merge(base, overlays)\<close> of section 4.3: the base schema
  supplies the lowest-priority messages, the overlays are applied in order.
\<close>

definition merge :: "schema \<Rightarrow> schema list \<Rightarrow> message_index" where
  "merge base overlays = fold (mergeWalk []) (base # overlays) (\<lambda>_. None)"

text \<open>
  Modelled from the spec: the message lookup of \<open>localize\<close> (section 4.5): ``look up
  \<open>index\<close>; if present, substitute the message, else keep the validator's own message''.
\<close>

definition localizedMessage :: "message_index \<Rightarrow> string list \<Rightarrow> string \<Rightarrow> string \<Rightarrow> string" where
  "localizedMessage idx p k raw = (case idx (p, k) of Some m \<Rightarrow> m | None \<Rightarrow> raw)"

text \<open>
  Modelled from the spec: the decimal segment that stands for a position in a pointer
  path (\<open>.../allOf/2/...\<close>), and the sub-nodes of a sequence keyed by position.
\<close>

definition digit_char :: "nat \<Rightarrow> char" where
  "digit_char d = ''0123456789'' ! d"

fun string_of_nat :: "nat \<Rightarrow> string" where
  "string_of_nat n =
     (if n < 10 then [digit_char n] else string_of_nat (n div 10) @ [digit_char (n mod 10)])"

fun positional :: "nat \<Rightarrow> schema list \<Rightarrow> (string \<times> schema) list" where
  "positional i [] = []"
| "positional i (s # ss) = (string_of_nat i, s) # positional (Suc i) ss"

subsection \<open>Observing a schema\<close>

text \<open>The node of a schema at a pointer path, and the message its own block declares.\<close>

fun schemaAt :: "schema \<Rightarrow> string list \<Rightarrow> schema option" where
  "schemaAt s [] = Some s"
| "schemaAt (Schema errs kids) (seg # rest) =
     (case map_of kids seg of Some c \<Rightarrow> schemaAt c rest | None \<Rightarrow> None)"

definition declared :: "schema \<Rightarrow> string list \<Rightarrow> string \<Rightarrow> string option" where
  "declared s p k =
     (case schemaAt s p of Some (Schema errs kids) \<Rightarrow> map_of errs k | None \<Rightarrow> None)"

text \<open>A JSON object has every key once: in each block and among the sub-nodes of each node.\<close>

fun unique_keys :: "schema \<Rightarrow> bool"
  and unique_keys_all :: "(string \<times> schema) list \<Rightarrow> bool"
where
  "unique_keys (Schema errs kids) =
     (distinct (map fst errs) \<and> distinct (map fst kids) \<and> unique_keys_all kids)"
| "unique_keys_all [] = True"
| "unique_keys_all ((seg, c) # kids) = (unique_keys c \<and> unique_keys_all kids)"

subsection \<open>The test schemas\<close>

text \<open>
  The nodes of \<open>tests/schemas/evolved.json\<close> and \<open>tests/schemas/gated.json\<close> with their
  \<open>errors\<close> blocks. \<open>$ref\<close> nodes and nodes without sub-nodes are leaves; the scalar
  members (\<open>type\<close>, \<open>minLength\<close>, the \<open>required\<close> names and so on) are left out.
\<close>

definition apostrophe :: string where
  "apostrophe = [CHR 0x27]"

definition double_quote :: string where
  "double_quote = [CHR 0x22]"

definition evolved_testString :: schema where
  "evolved_testString =
     Schema
       [(''minLength'', ''You must enter a test string that is at least four characters long.''),
        (''maxLength'', ''You must enter a test string that is no more than nine characters long.''),
        (''pattern'', ''You must enter a test string which contains the word '' @ double_quote @
                      ''CAT'' @ double_quote @ ''.'')]
       []"

definition evolved_testAllOf :: schema where
  "evolved_testAllOf =
     Schema []
       [(''allOf'',
         Schema []
           (positional 0
              [Schema [(''type'', ''The '' @ apostrophe @ ''allOf'' @ apostrophe @
                                 '' field must be a string.'')] [],
               Schema [(''minLength'', ''The '' @ apostrophe @ ''allOf'' @ apostrophe @
                                 '' string must be at least four characters long.'')] [],
               Schema [(''maxLength'', ''The '' @ apostrophe @ ''allOf'' @ apostrophe @
                                 '' string cannot be longer than nine characters.'')] [],
               Schema [(''pattern'', ''The '' @ apostrophe @ ''allOf'' @ apostrophe @
                                 '' string must contain the word '' @ apostrophe @ ''CAT'' @
                                 apostrophe @ ''.'')] []]))]"

definition evolved_json :: schema where
  "evolved_json =
     Schema
       [(''#/required/0'', ''The '' @ apostrophe @ ''shallowlyRequired'' @ apostrophe @
                           '' field is required.'')]
       [(''definitions'',
         Schema []
           [(''testString'', evolved_testString),
            (''testAllOf'', evolved_testAllOf),
            (''deep'', Schema [] [(''properties'', Schema [] [(''deeplyRequired'', Schema [] [])])]),
            (''hasNoErrorsMetadata'', Schema [] [])]),
        (''properties'',
         Schema []
           [(''testString'', Schema [] []),
            (''testAllOf'', Schema [] []),
            (''deep'', Schema [] []),
            (''hasNoErrorsMetadata'', Schema [] []),
            (''definedDirectly'',
             Schema [(''maxLength'', ''The '' @ apostrophe @ ''definedDirectly'' @ apostrophe @
                                    '' field must contain a single character.'')] []),
            (''definedDirectlyHasNoErrorsMetadata'', Schema [] [])])]"

definition gated_json :: schema where
  "gated_json =
     Schema []
       [(''definitions'',
         Schema []
           [(''failAfterValidation'', Schema [] []),
            (''testString'', Schema [] []),
            (''testAllOf'',
             Schema []
               [(''allOf'',
                 Schema [] (positional 0 [Schema [] [], Schema [] [], Schema [] [], Schema [] []]))]),
            (''deep'', Schema [] [(''properties'', Schema [] [(''deeplyRequired'', Schema [] [])])])]),
        (''properties'',
         Schema []
           [(''failAfterValidation'', Schema [] []),
            (''testString'', Schema [] []),
            (''testAllOf'', Schema [] []),
            (''deep'', Schema [] [])])]"

section \<open>A validator in strict mode\<close>

text \<open>
  \<open>zSchemaOptions\<close> (lines 205 to 210) asks the validator for \<open>noExtraKeywords: true\<close>:
  a schema with a keyword that JSON Schema does not know is then no valid schema. The
  validator below stands for a validator run in that mode, reduced to the two checks
  that matter for the test schemas: it rejects a schema set as soon as one node carries
  an \<open>errors\<close> block, and it accepts a record, given as the list of its property names,
  exactly when it has the property \<open>shallowlyRequired\<close> that both test schemas require.
  Its state is the list of its last errors.
\<close>

fun carries_errors :: "schema \<Rightarrow> bool"
  and carries_errors_any :: "(string \<times> schema) list \<Rightarrow> bool"
where
  "carries_errors (Schema errs kids) = (if errs = [] then carries_errors_any kids else True)"
| "carries_errors_any [] = False"
| "carries_errors_any ((seg, c) # kids) =
     (if carries_errors c then True else carries_errors_any kids)"

definition strict_validator :: "(raw_error list, schema, string list) validator_api" where
  "strict_validator =
     \<lparr>getValidator = [],
      validateSchema = (\<lambda>v schemas.
        if list_ex carries_errors schemas
        then (False,
              [\<lparr>code = ''KEYWORD_UNDEFINED_STRICT'', params = Some [''errors''],
                message = ''Keyword errors is undefined in strict mode'', path = ''#/''\<rparr>],
              schemas)
        else (True, [], schemas)),
      validator_validate = (\<lambda>v content schema.
        if ''shallowlyRequired'' \<in> set content then (True, [], schema)
        else (False,
              [\<lparr>code = ''OBJECT_MISSING_REQUIRED_PROPERTY'', params = Some [''shallowlyRequired''],
                message = ''Missing required property: shallowlyRequired'', path = ''#/''\<rparr>],
              schema)),
      getLastErrors = (\<lambda>v. v)\<rparr>"

text \<open>A schema document without its \<open>errors\<close> blocks, all else unchanged.\<close>

fun strip_errors :: "schema \<Rightarrow> schema"
  and strip_errors_all :: "(string \<times> schema) list \<Rightarrow> (string \<times> schema) list"
where
  "strip_errors (Schema errs kids) = Schema [] (strip_errors_all kids)"
| "strip_errors_all [] = []"
| "strip_errors_all ((seg, c) # kids) = (seg, strip_errors c) # strip_errors_all kids"

section \<open>Lemmas on the pointer resolver\<close>

lemma split_str_chars: "\<forall>s\<in>set (split_str c xs). set s \<subseteq> set xs"
proof (induction xs)
  case Nil
  then show ?case by simp
next
  case (Cons x xs)
  then show ?case
    by (cases "split_str c xs") (auto split: if_splits)
qed

lemma removeEmptySegments_eq: "removeEmptySegments = (\<lambda>s. s \<noteq> [])"
  by (auto simp: removeEmptySegments_def)

lemma unescape_plain: "CHR ''~'' \<notin> set s \<Longrightarrow> unescape s = Inr s"
  by (induction s) auto

lemma unescape_all_plain:
  "\<forall>s\<in>set ss. CHR ''~'' \<notin> set s \<Longrightarrow> unescape_all ss = Inr ss"
  by (induction ss) (auto simp: unescape_plain)

lemma segmentsFromPointer_spec_plain:
  assumes "CHR ''~'' \<notin> set r"
  shows "segmentsFromPointer_spec (CHR ''#'' # CHR ''/'' # r) = Inr (splitPath (CHR ''#'' # CHR ''/'' # r))"
proof -
  have "\<forall>s\<in>set (split_str CHR ''/'' r). CHR ''~'' \<notin> set s"
    using assms split_str_chars [of "CHR ''/''" r] by auto
  then have "unescape_all (split_str CHR ''/'' r) = Inr (split_str CHR ''/'' r)"
    by (rule unescape_all_plain)
  then show ?thesis
    by (simp add: segmentsFromPointer_spec_def splitPath_def removeEmptySegments_eq)
qed

section \<open>Lemmas on the merge engine\<close>

declare string_of_nat.simps [simp del]

lemma writeErrors_other: "q \<noteq> p \<Longrightarrow> writeErrors p errs idx (q, k) = idx (q, k)"
  by (induction p errs idx rule: writeErrors.induct) auto

lemma writeErrors_at:
  "distinct (map fst errs) \<Longrightarrow>
   writeErrors p errs idx (p, k) = (case map_of errs k of Some m \<Rightarrow> Some m | None \<Rightarrow> idx (p, k))"
proof (induction errs arbitrary: idx)
  case Nil
  then show ?case by simp
next
  case (Cons e errs)
  obtain k' m where e: "e = (k', m)" by (cases e)
  from Cons.prems have d: "distinct (map fst errs)" and n: "k' \<notin> fst ` set errs"
    by (simp_all add: e)
  have "writeErrors p (e # errs) idx (p, k) = writeErrors p errs (idx((p, k') \<mapsto> m)) (p, k)"
    by (simp add: e)
  also have "\<dots> = (case map_of errs k of Some m' \<Rightarrow> Some m'
                    | None \<Rightarrow> (idx((p, k') \<mapsto> m)) (p, k))"
    by (rule Cons.IH [OF d])
  also have "\<dots> = (case map_of (e # errs) k of Some m' \<Rightarrow> Some m' | None \<Rightarrow> idx (p, k))"
  proof (cases "k = k'")
    case True
    with n have "map_of errs k = None" by (simp add: map_of_eq_None_iff)
    with True show ?thesis by (simp add: e)
  next
    case False
    then show ?thesis by (simp add: e split: option.splits)
  qed
  finally show ?case .
qed

lemma not_prefix_snoc: "\<not> strict_prefix p q \<Longrightarrow> \<not> prefix (p @ [seg]) q"
  by (auto simp: prefix_def strict_prefix_def)

lemma mergeWalk_outside:
  "\<not> prefix p q \<Longrightarrow> mergeWalk p s idx (q, k) = idx (q, k)"
  "\<not> strict_prefix p q \<Longrightarrow> mergeWalkChildren p kids idx (q, k) = idx (q, k)"
proof (induction p s idx and p kids idx rule: mergeWalk_mergeWalkChildren.induct)
  case (1 p errs kids idx)
  then have "q \<noteq> p" "\<not> strict_prefix p q" by (auto simp: strict_prefix_def)
  with 1 show ?case by (simp add: writeErrors_other)
next
  case (2 p idx)
  then show ?case by simp
next
  case (3 p seg c kids idx)
  from 3(3) have "\<not> prefix (p @ [seg]) q" by (rule not_prefix_snoc)
  with 3 show ?case by simp
qed

lemma mergeWalk_inside:
  "unique_keys s \<Longrightarrow>
   mergeWalk p s idx (p @ r, k) =
     (case declared s r k of Some m \<Rightarrow> Some m | None \<Rightarrow> idx (p @ r, k))"
  "unique_keys_all kids \<Longrightarrow> distinct (map fst kids) \<Longrightarrow>
   mergeWalkChildren p kids idx (p @ r, k) =
     (case r of
        [] \<Rightarrow> idx (p @ r, k)
      | seg # r' \<Rightarrow>
          (case map_of kids seg of
             None \<Rightarrow> idx (p @ r, k)
           | Some c \<Rightarrow> (case declared c r' k of Some m \<Rightarrow> Some m | None \<Rightarrow> idx (p @ r, k))))"
proof (induction p s idx and p kids idx arbitrary: r and r rule: mergeWalk_mergeWalkChildren.induct)
  case (1 p errs kids idx)
  then have u: "unique_keys_all kids" "distinct (map fst kids)" "distinct (map fst errs)"
    by simp_all
  show ?case
  proof (cases r)
    case Nil
    then show ?thesis
      using 1(1) [OF u(1,2), of "[]"] u(3)
      by (auto simp: declared_def writeErrors_at split: option.splits)
  next
    case (Cons seg r')
    then show ?thesis
      using 1(1) [OF u(1,2), of r]
      by (auto simp: declared_def writeErrors_other split: option.splits)
  qed
next
  case (2 p idx)
  then show ?case by (simp split: list.splits)
next
  case (3 p seg c kids idx)
  then have u: "unique_keys c" "unique_keys_all kids" "distinct (map fst kids)"
    and n: "seg \<notin> fst ` set kids"
    by simp_all
  let ?idx' = "mergeWalk (p @ [seg]) c idx"
  note rest = 3(2) [OF u(2,3), of r]
  show ?case
  proof (cases r)
    case Nil
    then show ?thesis using rest
      by (auto simp: mergeWalk_outside(1))
  next
    case (Cons seg' r')
    show ?thesis
    proof (cases "seg' = seg")
      case True
      with n have none: "map_of kids seg' = None" by (simp add: map_of_eq_None_iff)
      have "?idx' (p @ r, k) = (case declared c r' k of Some m \<Rightarrow> Some m | None \<Rightarrow> idx (p @ r, k))"
        using 3(1) [OF u(1), of r'] by (auto simp: Cons True split: option.splits)
      then show ?thesis using rest none by (auto simp: Cons True split: option.splits)
    next
      case False
      then have "\<not> prefix (p @ [seg]) (p @ r)" by (simp add: Cons)
      then have "?idx' (p @ r, k) = idx (p @ r, k)" by (rule mergeWalk_outside(1))
      then show ?thesis using rest False
        by (auto simp: Cons split: option.splits)
    qed
  qed
qed

lemma merge_single:
  "unique_keys base \<Longrightarrow> unique_keys overlay \<Longrightarrow>
   merge base [overlay] (p, k) =
     (case declared overlay p k of Some m \<Rightarrow> Some m | None \<Rightarrow> declared base p k)"
  using mergeWalk_inside(1) [of overlay "[]" _ p k] mergeWalk_inside(1) [of base "[]" _ p k]
  by (simp add: merge_def split: option.splits)


lemma digit_char_inj: "d < 10 \<Longrightarrow> e < 10 \<Longrightarrow> digit_char d = digit_char e \<Longrightarrow> d = e"
proof -
  assume a: "d < 10" "e < 10" "digit_char d = digit_char e"
  have "distinct ''0123456789''" by simp
  from nth_eq_iff_index_eq [OF this, of d e] a show ?thesis by (simp add: digit_char_def)
qed

lemma string_of_nat_nonempty: "string_of_nat n \<noteq> []" "[] \<noteq> string_of_nat n"
  by (subst string_of_nat.simps, simp)+

lemma string_of_nat_inj: "string_of_nat n = string_of_nat m \<Longrightarrow> n = m"
proof (induction n arbitrary: m rule: less_induct)
  case (less n)
  show ?case
  proof (cases "n < 10")
    case n: True
    show ?thesis
    proof (cases "m < 10")
      case True
      with n less.prems show ?thesis
        by (simp add: string_of_nat.simps [of n] string_of_nat.simps [of m] digit_char_inj)
    next
      case False
      with n less.prems show ?thesis
        by (simp add: string_of_nat.simps [of n] string_of_nat.simps [of m]
            string_of_nat_nonempty)
    qed
  next
    case n: False
    show ?thesis
    proof (cases "m < 10")
      case True
      with n less.prems show ?thesis
        by (simp add: string_of_nat.simps [of n] string_of_nat.simps [of m]
            string_of_nat_nonempty)
    next
      case False
      with n less.prems have
        eq: "string_of_nat (n div 10) = string_of_nat (m div 10)" and
        d: "digit_char (n mod 10) = digit_char (m mod 10)"
        by (simp_all add: string_of_nat.simps [of n] string_of_nat.simps [of m])
      from n have "n div 10 < n" by simp
      from less.IH [OF this eq] have q: "n div 10 = m div 10" .
      from d have r: "n mod 10 = m mod 10" by (simp add: digit_char_inj)
      from q r show ?thesis by (metis div_mult_mod_eq)
    qed
  qed
qed

lemma positional_keys: "fst ` set (positional i subs) = string_of_nat ` {i ..< i + length subs}"
proof (induction subs arbitrary: i)
  case Nil
  then show ?case by simp
next
  case (Cons s subs)
  have "{i ..< i + length (s # subs)} = insert i {Suc i ..< Suc i + length subs}" by auto
  with Cons [of "Suc i"] show ?case by simp
qed

lemma positional_lookup:
  "n < length subs \<Longrightarrow> map_of (positional i subs) (string_of_nat (i + n)) = Some (subs ! n)"
proof (induction subs arbitrary: i n)
  case Nil
  then show ?case by simp
next
  case (Cons s subs)
  show ?case
  proof (cases n)
    case 0
    then show ?thesis by simp
  next
    case (Suc n')
    with Cons.prems have "n' < length subs" by simp
    from Cons.IH [OF this, of "Suc i"] Suc show ?thesis
      by (auto dest: string_of_nat_inj)
  qed
qed

lemma positional_distinct: "distinct (map fst (positional i subs))"
proof (induction subs arbitrary: i)
  case Nil
  then show ?case by simp
next
  case (Cons s subs)
  have "string_of_nat i \<notin> fst ` set (positional (Suc i) subs)"
    by (auto simp: positional_keys dest: string_of_nat_inj)
  with Cons [of "Suc i"] show ?case by simp
qed

section \<open>The error map under conflicting and inherited paths\<close>

text \<open>
  Claim C1. The claim has every field-level error appended to the sequence at the node
  its path selects. The code does so only while the walk of lines 164 to 175 ends at a
  sequence. After an error under \<open>#/a\<close> with the missing property \<open>b\<close>, the node at \<open>a\<close>
  is the plain object that line 169 created on the way to \<open>a.b\<close>; a second error at
  \<open>#/a\<close> finds it truthy, the walk returns it, and \<open>target.push\<close> of line 200 is not a
  function: the call ends in a \<open>TypeError\<close> and no error map is returned. The same
  happens with one single error whose missing property is \<open>constructor\<close>, for which the
  read of line 168 gives the inherited function \<open>Object\<close>.
\<close>

theorem sanitizeValidationErrors_push_on_object:
  "sanitizeValidationErrors
     [\<lparr>code = ''OBJECT_MISSING_REQUIRED_PROPERTY'', params = Some [''b''],
       message = ''Missing required property: b'', path = ''#/a''\<rparr>,
      \<lparr>code = ''INVALID_TYPE'', params = Some [''string'', ''object''],
       message = ''Expected type string but found type object'', path = ''#/a''\<rparr>] =
     Inl TypeError \<and>
   sanitizeValidationErrors
     [\<lparr>code = ''OBJECT_MISSING_REQUIRED_PROPERTY'', params = Some [''constructor''],
       message = ''Missing required property: constructor'', path = ''#/''\<rparr>] =
     Inl TypeError"
  by code_simp

text \<open>
  Claim C5. The claim has the walk create what is missing and return the node at the
  end of the path, a message sequence, for every path. The code tests \<open>!target[segment]\<close>
  and not whether the property is the map's own, and it assigns in strict mode. For
  the tree \<open>{list: ["A"]}\<close> and the segments \<open>list\<close>, \<open>0\<close>, \<open>x\<close> the walk reaches the
  string \<open>"A"\<close>, finds \<open>"A".x\<close> undefined and assigns to it: a \<open>TypeError\<close>, the walk
  returns nothing. For the empty tree and the segment \<open>constructor\<close> the walk creates
  nothing and returns the inherited function \<open>Object\<close>, which is no sequence, and the
  tree stays empty.
\<close>

theorem resolveOrCreateTargetFromPath_no_sequence:
  "resolveOrCreateTargetFromPath (Obj [(''list'', Arr [Msg ''A''] [])]) [''list'', ''0'', ''x''] =
     Inl TypeError \<and>
   resolveOrCreateTargetFromPath (Obj []) [''constructor''] =
     Inr (Obj [], VRuntime (Builtin_function ''constructor''))"
  by code_simp

text \<open>
  Claim C7. The claim has the messages of errors with the same path accumulate in
  encounter order. With an earlier error below that path they do not: after the error
  under \<open>#/a\<close> with the missing property \<open>b\<close>, the two errors at \<open>#/a\<close> never reach the
  tree, since the first of them ends the whole call in a \<open>TypeError\<close> at line 200. A
  message that is stored can also be lost again: of the two messages at \<open>#/list\<close> the
  empty one is the element \<open>0\<close> of the sequence, line 168 reads it as falsy under
  \<open>#/list/0\<close>, and line 169 puts a new sequence in its place.
\<close>

theorem sanitizeValidationErrors_same_path_lost:
  "sanitizeValidationErrors
     [\<lparr>code = ''OBJECT_MISSING_REQUIRED_PROPERTY'', params = Some [''b''],
       message = ''Missing required property: b'', path = ''#/a''\<rparr>,
      \<lparr>code = ''INVALID_TYPE'', params = Some [''string'', ''object''],
       message = ''Expected type string but found type object'', path = ''#/a''\<rparr>,
      \<lparr>code = ''OBJECT_ADDITIONAL_PROPERTIES'', params = Some [''c''],
       message = ''Additional properties not allowed: c'', path = ''#/a''\<rparr>] =
     Inl TypeError \<and>
   sanitizeValidationErrors
     [\<lparr>code = ''CUSTOM'', params = None, message = '''', path = ''#/list''\<rparr>,
      \<lparr>code = ''CUSTOM'', params = None, message = ''A'', path = ''#/list''\<rparr>,
      \<lparr>code = ''CUSTOM'', params = None, message = ''B'', path = ''#/list/0''\<rparr>] =
     Inr \<lparr>documentErrors = [],
          fieldErrors = Obj [(''list'', Arr [Sub (Arr [Msg ''B''] []), Msg ''A''] [])]\<rparr>"
  by code_simp

text \<open>
  Claim C10. The claim has every entry at another path unchanged after an insertion. A
  sequence has its elements as properties, so a segment that is an array index names a
  place inside the sequence of the path before it. Saving \<open>B\<close> under \<open>list\<close>, \<open>1\<close> into
  \<open>{list: ["A"]}\<close> changes the entry at the path \<open>list\<close>, which becomes
  \<open>["A", ["B"]]\<close>. Saving \<open>B\<close> under \<open>list\<close>, \<open>0\<close> into \<open>{list: [""]}\<close> replaces the
  message stored at \<open>list\<close> by a new sequence.
\<close>

theorem saveToPath_changes_other_path:
  "saveToPath [''list'', ''1''] ''B''
     \<lparr>documentErrors = [], fieldErrors = Obj [(''list'', Arr [Msg ''A''] [])]\<rparr> =
     Inr \<lparr>documentErrors = [],
          fieldErrors = Obj [(''list'', Arr [Msg ''A'', Sub (Arr [Msg ''B''] [])] [])]\<rparr> \<and>
   saveToPath [''list'', ''0''] ''B''
     \<lparr>documentErrors = [], fieldErrors = Obj [(''list'', Arr [Msg ''''] [])]\<rparr> =
     Inr \<lparr>documentErrors = [],
          fieldErrors = Obj [(''list'', Arr [Sub (Arr [Msg ''B''] [])] [])]\<rparr>"
  by code_simp

section \<open>Path segments and the specification's pointer resolver\<close>

text \<open>
  Claim C4 says that the segments of a pointer are obtained by splitting on \<open>/\<close>,
  dropping the leading empty segment and the marker \<open>#\<close>, decoding \<open>~1\<close> and \<open>~0\<close> and
  dropping empty segments, and that a \<open>~\<close> followed by anything else fails with
  \<open>MalformedPointerError\<close>. The code decodes nothing and never fails: on the path of the
  comment above \<open>extractPathSegments\<close>, \<open>#/deep~1slasher\<close>, it keeps \<open>deep~1slasher\<close>
  where the description gives \<open>deep/slasher\<close>, and it returns \<open>a~2\<close> where the
  description fails. It also drops the first non-empty segment whatever it is, so
  \<open>/a/b\<close> loses \<open>a\<close>.
\<close>

theorem extractPathSegments_decodes_nothing:
  "extractPathSegments
     \<lparr>code = ''OBJECT_MISSING_REQUIRED_PROPERTY'', params = Some [''required''],
      message = ''Missing required property: required'', path = ''#/deep~1slasher''\<rparr> =
     [''deep~1slasher'', ''required''] \<and>
   splitPath ''#/deep~1slasher'' = [''deep~1slasher''] \<and>
   segmentsFromPointer_spec ''#/deep~1slasher'' = Inr [''deep/slasher''] \<and>
   splitPath ''#/a~2'' = [''a~2''] \<and>
   segmentsFromPointer_spec ''#/a~2'' = Inl MalformedPointerError \<and>
   splitPath ''/a/b'' = [''b''] \<and>
   segmentsFromPointer_spec ''/a/b'' = Inr [''a'', ''b'']"
  by (simp add: extractPathSegments_def splitPath_def removeEmptySegments_def
      segmentsFromPointer_spec_def)

text \<open>
  Claim C4, amended. For every path of the form \<open>#/\<dots>\<close>, which is the form the
  validator reports, that contains no \<open>~\<close>, the segments the code computes are the ones
  the description gives: the path split on \<open>/\<close>, without the marker \<open>#\<close> and without
  empty segments; for a required-property failure the \<open>params\<close> follow. The code has no
  failing case for a path. What becomes of \<open>~0\<close> and \<open>~1\<close> is left open here.
\<close>

theorem splitPath_agrees_without_escapes:
  assumes "path e = CHR ''#'' # CHR ''/'' # r" and "CHR ''~'' \<notin> set r"
  shows "segmentsFromPointer_spec (path e) = Inr (splitPath (path e)) \<and>
         extractPathSegments e =
           splitPath (path e) @
           (if code e = ''OBJECT_MISSING_REQUIRED_PROPERTY''
            then (case params e of Some ps \<Rightarrow> ps | None \<Rightarrow> []) else [])"
  using segmentsFromPointer_spec_plain [OF assms(2)] assms(1)
  by (simp add: extractPathSegments_def split: option.splits)

theorem splitPath_agrees_without_escapes_witness:
  "segmentsFromPointer_spec ''#/category//subcategory/field'' =
     Inr [''category'', ''subcategory'', ''field''] \<and>
   extractPathSegments
     \<lparr>code = ''PATTERN'', params = None, message = ''no match'',
      path = ''#/category//subcategory/field''\<rparr> = [''category'', ''subcategory'', ''field'']"
proof -
  let ?e = "\<lparr>code = ''PATTERN'', params = None, message = ''no match'',
      path = ''#/category//subcategory/field''\<rparr>"
  have p: "path ?e = CHR ''#'' # CHR ''/'' # ''category//subcategory/field''" by simp
  have t: "CHR ''~'' \<notin> set ''category//subcategory/field''" by simp
  have sp: "splitPath ''#/category//subcategory/field'' = [''category'', ''subcategory'', ''field'']"
    by (simp add: splitPath_def removeEmptySegments_def)
  from splitPath_agrees_without_escapes [OF p t] sp show ?thesis by simp
qed

section \<open>The validation call\<close>






text \<open>
  Claim C6. The claim has \<open>validate\<close> fail at once for every schema key that is not
  registered. The guard of line 51 is \<open>!that.schemaContents[key]\<close>, a read that follows
  the prototype chain of the plain object. For the key \<open>toString\<close>, which no schema was
  registered under, the read gives the inherited function, the guard does not fire and
  \<open>fluid.fail\<close> of line 52 is not reached: a validator is created and all loaded
  schemas are validated, and only then the function is handed to the validator in
  place of a schema.
\<close>

theorem validate_inherited_key_passes_guard:
  "validate strict_validator \<lparr>schemaContents = [(''gated.json'', gated_json)]\<rparr>
     ''toString'' [''shallowlyRequired''] =
     (Inl Unmodelled, \<lparr>schemaContents = [(''gated.json'', gated_json)]\<rparr>, Some [])"
  by code_simp

text \<open>
  Claim C9. For a key that passes the guard of line 51, \<open>validate\<close> first hands all
  loaded schema documents together to \<open>validateSchema\<close>. When the validator rejects
  them, \<open>validate\<close> fails through \<open>fluid.fail\<close> with the validator's last errors, and
  the outcome is the same for every content and for every way the validator would
  judge content, since the content is not looked at. For no key at all does the call
  return a value then, neither \<open>undefined\<close> nor an error map.
\<close>

theorem validate_invalid_schemas_fail:
  assumes "validateSchema api (getValidator api) (map snd (schemaContents that)) = (False, v1, ss)"
  shows "(getSchema that key \<noteq> No_schema \<longrightarrow>
            validate api that key content =
              (Inl (Fail_errors (getLastErrors api v1)),
               that\<lparr>schemaContents := writeBack (schemaContents that) ss\<rparr>, Some v1)) \<and>
         (\<forall>result. fst (validate api that key content) \<noteq> Inr result) \<and>
         (\<forall>judge content'.
            validate (api\<lparr>validator_validate := judge\<rparr>) that key content' =
            validate api that key content)"
  using assms by (cases "getSchema that key") (simp_all add: validate_def Let_def)

theorem validate_invalid_schemas_fail_witness:
  "validate
     \<lparr>getValidator = (0::nat),
      validateSchema = (\<lambda>v ss. (False, Suc v, ss)),
      validator_validate = (\<lambda>v content s. (content \<noteq> [], Suc v, s)),
      getLastErrors = (\<lambda>v. [\<lparr>code = ''KEYWORD_UNDEFINED_STRICT'', params = Some [''errors''],
                               message = ''Keyword errors is undefined in strict mode'',
                               path = ''#/''\<rparr>])\<rparr>
     \<lparr>schemaContents = [(''evolved.json'', evolved_json), (''gated.json'', gated_json)]\<rparr>
     ''gated.json'' [''shallowlyRequired''] =
   (Inl (Fail_errors [\<lparr>code = ''KEYWORD_UNDEFINED_STRICT'', params = Some [''errors''],
                       message = ''Keyword errors is undefined in strict mode'',
                       path = ''#/''\<rparr>]),
    \<lparr>schemaContents = [(''evolved.json'', evolved_json), (''gated.json'', gated_json)]\<rparr>,
    Some (Suc 0))"
proof -
  let ?api = "\<lparr>getValidator = (0::nat),
      validateSchema = (\<lambda>v ss. (False, Suc v, ss)),
      validator_validate = (\<lambda>v content s. (content \<noteq> [], Suc v, s)),
      getLastErrors = (\<lambda>v. [\<lparr>code = ''KEYWORD_UNDEFINED_STRICT'', params = Some [''errors''],
                               message = ''Keyword errors is undefined in strict mode'',
                               path = ''#/''\<rparr>])\<rparr> :: (nat, schema, string list) validator_api"
  let ?that = "\<lparr>schemaContents = [(''evolved.json'', evolved_json), (''gated.json'', gated_json)]\<rparr>"
  have a: "getSchema ?that ''gated.json'' \<noteq> No_schema"
    by (simp add: getSchema_def)
  have b: "validateSchema ?api (getValidator ?api) (map snd (schemaContents ?that)) =
      (False, Suc 0, [evolved_json, gated_json])"
    by simp
  from validate_invalid_schemas_fail [OF b, of "''gated.json''" "[''shallowlyRequired'']"] a
  show ?thesis by simp
qed

section \<open>Overlay precedence in the merged index\<close>

lemma schemaAt_append:
  "schemaAt s (a @ b) = (case schemaAt s a of Some c \<Rightarrow> schemaAt c b | None \<Rightarrow> None)"
proof (induction s a rule: schemaAt.induct)
  case (1 s)
  then show ?case by simp
next
  case (2 errs kids seg rest)
  then show ?case by (simp split: option.splits)
qed

text \<open>
  Claim C2. For a base schema and an overlay, at every pointer path and keyword: when
  the base declares \<open>M0\<close> and the overlay declares \<open>M1\<close>, the merged index yields \<open>M1\<close>;
  when only the base declares \<open>M0\<close>, it yields \<open>M0\<close>; when neither declares a message,
  the index has no entry and the localized message is the validator's own.
\<close>

theorem merge_overlay_over_base:
  assumes "unique_keys base" and "unique_keys overlay"
  shows "(declared base p k = Some M0 \<and> declared overlay p k = Some M1 \<longrightarrow>
            merge base [overlay] (p, k) = Some M1 \<and>
            localizedMessage (merge base [overlay]) p k raw = M1) \<and>
         (declared base p k = Some M0 \<and> declared overlay p k = None \<longrightarrow>
            merge base [overlay] (p, k) = Some M0 \<and>
            localizedMessage (merge base [overlay]) p k raw = M0) \<and>
         (declared base p k = None \<and> declared overlay p k = None \<longrightarrow>
            merge base [overlay] (p, k) = None \<and>
            localizedMessage (merge base [overlay]) p k raw = raw)"
  using merge_single [OF assms, of p k] by (simp add: localizedMessage_def)

theorem merge_overlay_over_base_witness:
  "unique_keys evolved_json \<and>
   unique_keys (Schema [] [(''definitions'', Schema [] [(''testString'',
      Schema [(''maxLength'',
               ''You must enter a BETTER string that is no more than nine characters long.'')]
        [])])]) \<and>
   merge evolved_json
     [Schema [] [(''definitions'', Schema [] [(''testString'',
        Schema [(''maxLength'',
                 ''You must enter a BETTER string that is no more than nine characters long.'')]
          [])])]]
     ([''definitions'', ''testString''], ''maxLength'') =
     Some ''You must enter a BETTER string that is no more than nine characters long.'' \<and>
   merge evolved_json
     [Schema [] [(''definitions'', Schema [] [(''testString'',
        Schema [(''maxLength'',
                 ''You must enter a BETTER string that is no more than nine characters long.'')]
          [])])]]
     ([''definitions'', ''testString''], ''minLength'') =
     Some ''You must enter a test string that is at least four characters long.'' \<and>
   localizedMessage
     (merge evolved_json
        [Schema [] [(''definitions'', Schema [] [(''testString'',
           Schema [(''maxLength'',
                    ''You must enter a BETTER string that is no more than nine characters long.'')]
             [])])]])
     [''definitions'', ''testString''] ''type'' ''should be string'' = ''should be string''"
proof -
  let ?overlay = "Schema [] [(''definitions'', Schema [] [(''testString'',
      Schema [(''maxLength'',
               ''You must enter a BETTER string that is no more than nine characters long.'')]
        [])])]"
  let ?p = "[''definitions'', ''testString'']"
  have u: "unique_keys evolved_json"
    by (simp add: evolved_json_def evolved_testString_def evolved_testAllOf_def
        string_of_nat.simps digit_char_def)
  have v: "unique_keys ?overlay" by simp
  have b: "declared evolved_json ?p ''maxLength'' =
             Some ''You must enter a test string that is no more than nine characters long.''"
          "declared evolved_json ?p ''minLength'' =
             Some ''You must enter a test string that is at least four characters long.''"
          "declared evolved_json ?p ''type'' = None"
    by (simp_all add: declared_def evolved_json_def evolved_testString_def)
  have o: "declared ?overlay ?p ''maxLength'' =
             Some ''You must enter a BETTER string that is no more than nine characters long.''"
          "declared ?overlay ?p ''minLength'' = None"
          "declared ?overlay ?p ''type'' = None"
    by (simp_all add: declared_def)
  from merge_overlay_over_base [OF u v, of ?p "''maxLength''"] b(1) o(1)
  have c1: "merge evolved_json [?overlay] (?p, ''maxLength'') =
      Some ''You must enter a BETTER string that is no more than nine characters long.''"
    by simp
  from merge_overlay_over_base [OF u v, of ?p "''minLength''"] b(2) o(2)
  have c2: "merge evolved_json [?overlay] (?p, ''minLength'') =
      Some ''You must enter a test string that is at least four characters long.''"
    by simp
  from merge_overlay_over_base [OF u v, of ?p "''type''" _ _ "''should be string''"] b(3) o(3)
  have c3: "localizedMessage (merge evolved_json [?overlay]) ?p ''type'' ''should be string'' =
      ''should be string''"
    by simp
  from u v c1 c2 c3 show ?thesis by blast
qed

section \<open>Positions of an \<open>allOf\<close> sequence in the index\<close>

text \<open>
  Claim C8. When the overlay has an \<open>allOf\<close> sequence at a pointer path, the index
  entry for position \<open>N\<close> of that sequence and a keyword is the message that the
  overlay's sub-schema at position \<open>N\<close> declares for the keyword, and the base's message
  at the same position when that sub-schema declares none. The position is part of the
  key: different positions give different keys, so the message of another position is
  never used.
\<close>

theorem allOf_entry_is_positional:
  assumes "unique_keys base" and "unique_keys overlay"
    and "schemaAt overlay (p @ [''allOf'']) = Some (Schema errs (positional 0 subs))"
    and "N < length subs" and "subs ! N = Schema errsN kidsN"
  shows "merge base [overlay] (p @ [''allOf'', string_of_nat N], k) =
           (case map_of errsN k of
              Some m \<Rightarrow> Some m
            | None \<Rightarrow> declared base (p @ [''allOf'', string_of_nat N]) k) \<and>
         (\<forall>M. (p @ [''allOf'', string_of_nat M] = p @ [''allOf'', string_of_nat N]) = (M = N))"
proof -
  have "p @ [''allOf'', string_of_nat N] = (p @ [''allOf'']) @ [string_of_nat N]" by simp
  then have "schemaAt overlay (p @ [''allOf'', string_of_nat N]) = Some (subs ! N)"
    using assms(3) positional_lookup [OF assms(4), of 0]
    by (simp only: schemaAt_append) simp
  then have "declared overlay (p @ [''allOf'', string_of_nat N]) k = map_of errsN k"
    by (simp add: declared_def assms(5))
  moreover have "(string_of_nat M = string_of_nat N) = (M = N)" for M
    using string_of_nat_inj by auto
  ultimately show ?thesis
    using merge_single [OF assms(1,2), of "p @ [''allOf'', string_of_nat N]" k] by simp
qed

theorem allOf_entry_is_positional_witness:
  "unique_keys gated_json \<and> unique_keys evolved_json \<and>
   merge gated_json [evolved_json] ([''definitions'', ''testAllOf'', ''allOf'', ''2''], ''maxLength'') =
     Some (''The '' @ apostrophe @ ''allOf'' @ apostrophe @
           '' string cannot be longer than nine characters.'')"
proof -
  let ?subs = "[Schema [(''type'', ''The '' @ apostrophe @ ''allOf'' @ apostrophe @
                                 '' field must be a string.'')] [],
               Schema [(''minLength'', ''The '' @ apostrophe @ ''allOf'' @ apostrophe @
                                 '' string must be at least four characters long.'')] [],
               Schema [(''maxLength'', ''The '' @ apostrophe @ ''allOf'' @ apostrophe @
                                 '' string cannot be longer than nine characters.'')] [],
               Schema [(''pattern'', ''The '' @ apostrophe @ ''allOf'' @ apostrophe @
                                 '' string must contain the word '' @ apostrophe @ ''CAT'' @
                                 apostrophe @ ''.'')] []]"
  have u: "unique_keys gated_json"
    by (simp add: gated_json_def string_of_nat.simps digit_char_def)
  have v: "unique_keys evolved_json"
    by (simp add: evolved_json_def evolved_testString_def evolved_testAllOf_def
        string_of_nat.simps digit_char_def)
  have a: "schemaAt evolved_json ([''definitions'', ''testAllOf''] @ [''allOf'']) =
      Some (Schema [] (positional 0 ?subs))"
    by (simp add: evolved_json_def evolved_testAllOf_def)
  have n: "2 < length ?subs" by simp
  have s: "?subs ! 2 = Schema [(''maxLength'', ''The '' @ apostrophe @ ''allOf'' @ apostrophe @
                                 '' string cannot be longer than nine characters.'')] []"
    by simp
  have two: "string_of_nat 2 = ''2''" by (simp add: string_of_nat.simps digit_char_def)
  from allOf_entry_is_positional [OF u v a n s, of "''maxLength''"] two
  have "merge gated_json [evolved_json]
          ([''definitions'', ''testAllOf'', ''allOf'', ''2''], ''maxLength'') =
     Some (''The '' @ apostrophe @ ''allOf'' @ apostrophe @
           '' string cannot be longer than nine characters.'')"
    by simp
  with u v show ?thesis by blast
qed

end
